theory Spec2Isabelle
  imports Main "HOL-Library.Word" "HOL-Library.Multiset"
begin

unbundle bit_operations_syntax

section \<open>Data model of the profile manager\<close>

text \<open>
  The embedding follows \<^verbatim>\<open>components/profiles/src/ProfileManagerImpl.cpp\<close>.
  A \<^verbatim>\<open>ProfileIdentifier\<close> is a pair of strings (provider key, provider value);
  the source compares two of them with \<^verbatim>\<open>==\<close>, which is equality of pairs.
\<close>

type_synonym ProfileIdentifier = "string \<times> string"

text \<open>
  Modelled from the spec: the class \<^verbatim>\<open>ProfileImpl\<close> is declared in
  \<^verbatim>\<open>ProfileManagerImpl.h\<close>, which is not part of the sources at hand. Its fields are the
  ones of the spec's data model (display name, tile URI, ordered identifiers, a \<^verbatim>\<open>uint32\<close>
  fingerprint, the suggestion flag), one per accessor pair that the source file calls
  (\<^verbatim>\<open>SetDisplayName\<close>, \<^verbatim>\<open>SetTileURI\<close>, \<^verbatim>\<open>SetIdentifiers\<close>,
  \<^verbatim>\<open>SetInternalIdentifier\<close>, \<^verbatim>\<open>SetIsSuggestion\<close>).
\<close>

record ProfileImpl =
  m_name :: string
  m_tileURI :: string
  m_identifiers :: "ProfileIdentifier list"
  m_internalIdentifier :: "32 word"
  m_isSuggestion :: bool

text \<open>
  Modelled from the spec: what \<^verbatim>\<open>new ProfileImpl()\<close> leaves in the fields before the
  setters run (empty strings, no identifiers, fingerprint 0, not a suggestion).
\<close>

definition ProfileImpl_new :: ProfileImpl where
  "ProfileImpl_new =
     \<lparr>m_name = [], m_tileURI = [], m_identifiers = [],
      m_internalIdentifier = 0, m_isSuggestion = False\<rparr>"

text \<open>
  Modelled from the spec: \<^verbatim>\<open>GetDisplayName\<close> and \<^verbatim>\<open>GetTileURI\<close> are declared in the
  absent header; they give back the display name and the tile URI of the profile.
\<close>

definition GetDisplayName :: "ProfileImpl \<Rightarrow> string" where
  "GetDisplayName p = m_name p"

definition GetTileURI :: "ProfileImpl \<Rightarrow> string" where
  "GetTileURI p = m_tileURI p"

text \<open>
  The result of a profile task. The source builds it with three constructor calls:
  \<^verbatim>\<open>ProfileTaskResult()\<close>, \<^verbatim>\<open>ProfileTaskResult(true)\<close> and
  \<^verbatim>\<open>ProfileTaskResult(false, message)\<close>; the datatype has one constructor for each.
\<close>

datatype ProfileTaskResult =
    TaskResultDefault
  | TaskResult bool
  | TaskResultMsg bool string

text \<open>
  What an identity provider's task yields: \<^verbatim>\<open>HasSucceeded()\<close> with
  \<^verbatim>\<open>GetTokenType()\<close> and \<^verbatim>\<open>GetToken()\<close>, or a failure with \<^verbatim>\<open>GetError()\<close>.
\<close>

datatype ProfileIdentityResult =
    IdentitySucceeded string string
  | IdentityFailed string

text \<open>
  An identity provider: its key (\<^verbatim>\<open>GetIdentifierKey\<close>) and its answer to
  \<^verbatim>\<open>ProcessIdentity(profile, parameters)\<close>. The parameters are a
  \<^verbatim>\<open>std::map<std::string, std::string>\<close>, kept as an association list.
\<close>

record ProfileIdentityProvider =
  GetIdentifierKey :: string
  ProcessIdentity :: "ProfileImpl \<Rightarrow> (string \<times> string) list \<Rightarrow> ProfileIdentityResult"

text \<open>
  The manager. \<^verbatim>\<open>m_profiles\<close> is a \<^verbatim>\<open>std::map\<close> from fingerprint to profile: an
  association list kept in ascending key order, so that list order is the order in which
  the source's range-for loops visit it. \<^verbatim>\<open>m_profileIndices\<close> is the vector of
  fingerprints in discovery order. A suggestion provider is the list of candidate
  profiles it hands to the callback of \<^verbatim>\<open>GetProfiles\<close>, in that order.

  Modelled from the spec: the key type of \<^verbatim>\<open>m_profiles\<close> and the element type of
  \<^verbatim>\<open>m_profileIndices\<close> are declared in the absent header; the spec gives the
  fingerprint as \<^verbatim>\<open>uint32\<close>.
\<close>

record ProfileManagerImpl =
  m_suggestionProviders :: "ProfileImpl list list"
  m_identityProviders :: "string \<rightharpoonup> ProfileIdentityProvider"
  m_profiles :: "(32 word \<times> ProfileImpl) list"
  m_profileIndices :: "32 word list"

subsection \<open>The ordered map\<close>

text \<open>\<^verbatim>\<open>m[k] = v\<close> on a \<^verbatim>\<open>std::map\<close>: replace the value at \<open>k\<close>, or insert in key order.\<close>

fun map_assign :: "'k::linorder \<Rightarrow> 'v \<Rightarrow> ('k \<times> 'v) list \<Rightarrow> ('k \<times> 'v) list" where
  "map_assign k v [] = [(k, v)]"
| "map_assign k v (e # es) =
     (if fst e = k then (k, v) # es
      else if k < fst e then (k, v) # e # es
      else e # map_assign k v es)"

text \<open>
  A write through a pointer to a stored profile (\<^verbatim>\<open>matchingProfile->Set...\<close>): the
  profile stored under the key is replaced by its updated value.
\<close>

fun map_modify :: "'k \<Rightarrow> ('v \<Rightarrow> 'v) \<Rightarrow> ('k \<times> 'v) list \<Rightarrow> ('k \<times> 'v) list" where
  "map_modify k f [] = []"
| "map_modify k f (e # es) =
     (if fst e = k then (fst e, f (snd e)) # es else e # map_modify k f es)"

section \<open>Suggestion ingestion (the callback of \<^verbatim>\<open>Initialize\<close>)\<close>

text \<open>
  \<^verbatim>\<open>std::hash<ProfileIdentifier>\<close> is specialised in the absent header; it is the
  parameter \<open>hash\<close> of everything below. Its result type \<^verbatim>\<open>size_t\<close> is a word of any
  width \<open>'w\<close> (32 or 64 bits on the targets of the program).

  The innermost loop (over \<open>j\<close>): look for \<open>identifier\<close> among the identifiers of
  the stored profile with key \<open>k\<close>; on the first hit set both variables and \<^verbatim>\<open>break\<close>.
  The state is the pair (\<^verbatim>\<open>matchesExistingProfile\<close>, \<^verbatim>\<open>matchingProfile\<close>); the
  pointer \<^verbatim>\<open>matchingProfile\<close> is the key under which the profile is stored.
\<close>

type_synonym match_state = "bool \<times> 32 word option"

fun scan_thatProfile ::
  "ProfileIdentifier \<Rightarrow> 32 word \<Rightarrow> ProfileIdentifier list \<Rightarrow> match_state \<Rightarrow> match_state" where
  "scan_thatProfile identifier k [] st = st"
| "scan_thatProfile identifier k (thatIdentifier # rest) st =
     (if identifier = thatIdentifier then (True, Some k)
      else scan_thatProfile identifier k rest st)"

text \<open>
  The middle loop, over \<^verbatim>\<open>m_profiles\<close> in map order. After each stored profile the
  loop stops as soon as \<^verbatim>\<open>matchesExistingProfile\<close> is set, also when it was set while
  an earlier identifier of the candidate was handled.
\<close>

fun scan_profiles ::
  "ProfileIdentifier \<Rightarrow> (32 word \<times> ProfileImpl) list \<Rightarrow> match_state \<Rightarrow> match_state" where
  "scan_profiles identifier [] st = st"
| "scan_profiles identifier (e # es) st =
     (let st' = scan_thatProfile identifier (fst e) (m_identifiers (snd e)) st
      in if fst st' then st' else scan_profiles identifier es st')"

text \<open>The outer loop, over the candidate's identifiers; it also accumulates \<^verbatim>\<open>hashKey\<close>.\<close>

fun scan_candidate ::
  "(ProfileIdentifier \<Rightarrow> 'w::len word) \<Rightarrow> (32 word \<times> ProfileImpl) list \<Rightarrow>
   ProfileIdentifier list \<Rightarrow> match_state \<times> 'w word \<Rightarrow> match_state \<times> 'w word" where
  "scan_candidate hash ps [] acc = acc"
| "scan_candidate hash ps (identifier # rest) acc =
     scan_candidate hash ps rest
       (scan_profiles identifier ps (fst acc), snd acc XOR 3 * hash identifier)"

text \<open>
  The callback itself. It returns the candidate as the callback leaves it (marked as a
  suggestion, fingerprint set) and the manager. \<^verbatim>\<open>hashKey &= UINT32_MAX\<close> is the
  conjunction with \<open>0xFFFFFFFF\<close>; passing the \<^verbatim>\<open>size_t\<close> to the 32-bit fingerprint is
  \<open>ucast\<close>.
\<close>

definition Initialize_callback ::
  "(ProfileIdentifier \<Rightarrow> 'w::len word) \<Rightarrow> ProfileImpl \<Rightarrow> ProfileManagerImpl \<Rightarrow>
   ProfileImpl \<times> ProfileManagerImpl" where
  "Initialize_callback hash profileImpl mgr =
     (let r = scan_candidate hash (m_profiles mgr) (m_identifiers profileImpl) ((False, None), 0);
          matchesExistingProfile = fst (fst r);
          matchingProfile = snd (fst r);
          hashKey = snd r AND 0xFFFFFFFF;
          suggested = profileImpl\<lparr>m_internalIdentifier := ucast hashKey, m_isSuggestion := True\<rparr>
      in if \<not> matchesExistingProfile then
           (suggested,
            mgr\<lparr>m_profiles := map_assign (ucast hashKey) suggested (m_profiles mgr),
                m_profileIndices := m_profileIndices mgr @ [ucast hashKey]\<rparr>)
         else
           (suggested,
            (case matchingProfile of
               None \<Rightarrow> mgr
             | Some k \<Rightarrow>
                 mgr\<lparr>m_profiles :=
                   map_modify k
                     (\<lambda>p. p\<lparr>m_name := GetDisplayName suggested, m_tileURI := GetTileURI suggested\<rparr>)
                     (m_profiles mgr)\<rparr>)))"

section \<open>The persisted document\<close>

text \<open>
  The document tree that \<^verbatim>\<open>rapidjson\<close> hands to the program. Turning text into the
  tree and back is the library's work; the functions below start from the parsed tree
  and end with the tree that is handed to the writer. Only the tests \<^verbatim>\<open>IsObject\<close>,
  \<^verbatim>\<open>IsArray\<close> and \<^verbatim>\<open>IsString\<close> are applied to a value, so numbers are kept as
  integers.
\<close>

datatype json =
    JNull
  | JBool bool
  | JNumber int
  | JString string
  | JArray "json list"
  | JObject "(string \<times> json) list"

fun IsObject :: "json \<Rightarrow> bool" where
  "IsObject (JObject ms) = True"
| "IsObject v = False"

fun IsArray :: "json \<Rightarrow> bool" where
  "IsArray (JArray vs) = True"
| "IsArray v = False"

fun IsString :: "json \<Rightarrow> bool" where
  "IsString (JString s) = True"
| "IsString v = False"

text \<open>\<^verbatim>\<open>GetString\<close> with \<^verbatim>\<open>GetStringLength\<close>: the whole string of a string value.\<close>

fun GetString :: "json \<Rightarrow> string" where
  "GetString (JString s) = s"
| "GetString v = []"

text \<open>The elements between \<^verbatim>\<open>Begin()\<close> and \<^verbatim>\<open>End()\<close> of an array value.\<close>

fun Elements :: "json \<Rightarrow> json list" where
  "Elements (JArray vs) = vs"
| "Elements v = []"

text \<open>
  \<^verbatim>\<open>HasMember(name)\<close> followed by \<^verbatim>\<open>value[name]\<close>: the first member of that name,
  \<open>None\<close> when \<^verbatim>\<open>HasMember\<close> is false.
\<close>

fun FindMember :: "json \<Rightarrow> string \<Rightarrow> json option" where
  "FindMember (JObject ms) name = map_of ms name"
| "FindMember v name = None"

text \<open>
  A \<^verbatim>\<open>std::string\<close> read through a \<^verbatim>\<open>const char*\<close> ends at its first NUL character:
  \<^verbatim>\<open>identifier.first.c_str()\<close> given to the document, and the \<^verbatim>\<open>GetString()\<close> pointers
  given to \<^verbatim>\<open>std::make_pair\<close>.
\<close>

definition c_str :: "string \<Rightarrow> string" where
  "c_str s = takeWhile (\<lambda>c. c \<noteq> CHR 0x00) s"

subsection \<open>Loading: \<^verbatim>\<open>ParseStoredProfiles\<close>\<close>

text \<open>
  The inner lambda, run on every element of the \<^verbatim>\<open>identifiers\<close> array. Its state is
  the vector \<^verbatim>\<open>identifiers\<close> and \<^verbatim>\<open>hashKey\<close>; each \<^verbatim>\<open>return\<close> leaves both as they
  are and the enclosing \<^verbatim>\<open>for_each\<close> goes on with the next element.
\<close>

definition parse_identifierMember ::
  "(ProfileIdentifier \<Rightarrow> 'w::len word) \<Rightarrow> json \<Rightarrow>
   ProfileIdentifier list \<times> 'w word \<Rightarrow> ProfileIdentifier list \<times> 'w word" where
  "parse_identifierMember hash identifierMember acc =
     (if \<not> IsArray identifierMember then acc
      else if length (Elements identifierMember) \<noteq> 2 then acc
      else
        let left = Elements identifierMember ! 0;
            right = Elements identifierMember ! 1
        in if \<not> IsString left then acc
           else if \<not> IsString right then acc
           else
             let identifier = (c_str (GetString left), c_str (GetString right))
             in (fst acc @ [identifier], snd acc XOR 3 * hash identifier))"

text \<open>
  The outer lambda, run on every element of the \<^verbatim>\<open>profiles\<close> array. The load path does
  not mask \<^verbatim>\<open>hashKey\<close>: the \<^verbatim>\<open>size_t\<close> is passed as it is to
  \<^verbatim>\<open>SetInternalIdentifier\<close> and to the map, whose 32-bit key keeps its low 32 bits.
\<close>

definition parse_profile ::
  "(ProfileIdentifier \<Rightarrow> 'w::len word) \<Rightarrow> json \<Rightarrow> ProfileManagerImpl \<Rightarrow> ProfileManagerImpl" where
  "parse_profile hash value mgr =
     (if \<not> IsObject value then mgr
      else case FindMember value ''displayName'' of
        None \<Rightarrow> mgr
      | Some displayNameMember \<Rightarrow>
          if \<not> IsString displayNameMember then mgr
          else case FindMember value ''tileUri'' of
            None \<Rightarrow> mgr
          | Some tileUriMember \<Rightarrow>
              if \<not> IsString tileUriMember then mgr
              else case FindMember value ''identifiers'' of
                None \<Rightarrow> mgr
              | Some identifiersMember \<Rightarrow>
                  if \<not> IsArray identifiersMember then mgr
                  else
                    let r = fold (parse_identifierMember hash) (Elements identifiersMember) ([], 0);
                        identifiers = fst r;
                        hashKey = snd r;
                        profile = ProfileImpl_new
                          \<lparr>m_name := GetString displayNameMember,
                           m_tileURI := GetString tileUriMember,
                           m_identifiers := identifiers,
                           m_internalIdentifier := ucast hashKey\<rparr>
                    in mgr\<lparr>m_profiles := map_assign (ucast hashKey) profile (m_profiles mgr),
                           m_profileIndices := m_profileIndices mgr @ [ucast hashKey]\<rparr>)"

text \<open>
  \<^verbatim>\<open>ParseStoredProfiles\<close>, from the result of \<^verbatim>\<open>document.Parse\<close>: \<open>None\<close> when
  \<^verbatim>\<open>HasParseError()\<close>.
\<close>

definition ParseStoredProfiles ::
  "(ProfileIdentifier \<Rightarrow> 'w::len word) \<Rightarrow> json option \<Rightarrow> ProfileManagerImpl \<Rightarrow> ProfileManagerImpl" where
  "ParseStoredProfiles hash document mgr =
     (case document of
        None \<Rightarrow> mgr
      | Some d \<Rightarrow>
          if IsObject d then
            (case FindMember d ''profiles'' of
               None \<Rightarrow> mgr
             | Some profiles \<Rightarrow>
                 if IsArray profiles then fold (parse_profile hash) (Elements profiles) mgr
                 else mgr)
          else mgr)"

text \<open>
  \<^verbatim>\<open>LoadStoredProfiles\<close>: the outer \<open>None\<close> stands for every way in which no text
  reaches the parser (no folder, no file, \<^verbatim>\<open>CryptUnprotectData\<close> fails).
\<close>

definition LoadStoredProfiles ::
  "(ProfileIdentifier \<Rightarrow> 'w::len word) \<Rightarrow> json option option \<Rightarrow> ProfileManagerImpl \<Rightarrow>
   ProfileManagerImpl" where
  "LoadStoredProfiles hash stored mgr =
     (case stored of None \<Rightarrow> mgr | Some document \<Rightarrow> ParseStoredProfiles hash document mgr)"

text \<open>\<^verbatim>\<open>Initialize\<close>: load, then hand every candidate of every suggestion provider to the callback.\<close>

definition Initialize ::
  "(ProfileIdentifier \<Rightarrow> 'w::len word) \<Rightarrow> json option option \<Rightarrow> ProfileManagerImpl \<Rightarrow>
   ProfileManagerImpl" where
  "Initialize hash stored mgr =
     (let loaded = LoadStoredProfiles hash stored mgr
      in fold (\<lambda>provider m. fold (\<lambda>profile m'. snd (Initialize_callback hash profile m')) provider m)
           (m_suggestionProviders loaded) loaded)"

subsection \<open>Saving: \<^verbatim>\<open>UpdateStoredProfiles\<close>\<close>

definition encode_identifier :: "ProfileIdentifier \<Rightarrow> json" where
  "encode_identifier identifier =
     JArray [JString (c_str (fst identifier)), JString (c_str (snd identifier))]"

definition encode_profile :: "ProfileImpl \<Rightarrow> json" where
  "encode_profile profile =
     JObject [(''displayName'', JString (GetDisplayName profile)),
              (''tileUri'', JString (GetTileURI profile)),
              (''identifiers'', JArray (map encode_identifier (m_identifiers profile)))]"

text \<open>
  The document that \<^verbatim>\<open>UpdateStoredProfiles\<close> builds and gives to the writer. The loop
  runs over \<^verbatim>\<open>m_profiles\<close>, that is in ascending fingerprint order, not over
  \<^verbatim>\<open>m_profileIndices\<close>.
\<close>

definition UpdateStoredProfiles :: "ProfileManagerImpl \<Rightarrow> json" where
  "UpdateStoredProfiles mgr =
     JObject [(''profiles'', JArray (map (\<lambda>profilePair. encode_profile (snd profilePair)) (m_profiles mgr)))]"

subsection \<open>The small operations of the public interface\<close>

definition AddSuggestionProvider :: "ProfileImpl list \<Rightarrow> ProfileManagerImpl \<Rightarrow> ProfileManagerImpl" where
  "AddSuggestionProvider provider mgr =
     mgr\<lparr>m_suggestionProviders := m_suggestionProviders mgr @ [provider]\<rparr>"

definition AddIdentityProvider ::
  "ProfileIdentityProvider \<Rightarrow> ProfileManagerImpl \<Rightarrow> ProfileManagerImpl" where
  "AddIdentityProvider provider mgr =
     mgr\<lparr>m_identityProviders := (m_identityProviders mgr)(GetIdentifierKey provider \<mapsto> provider)\<rparr>"

definition GetNumProfiles :: "ProfileManagerImpl \<Rightarrow> nat" where
  "GetNumProfiles mgr = length (m_profileIndices mgr)"

text \<open>
  \<^verbatim>\<open>GetProfile(index)\<close> reads \<^verbatim>\<open>m_profileIndices[index]\<close> without a bounds check;
  the model gives \<open>None\<close> for an index out of range, and for a fingerprint that the map
  does not hold (where \<^verbatim>\<open>operator[]\<close> would insert a null reference).
\<close>

definition GetProfile :: "ProfileManagerImpl \<Rightarrow> nat \<Rightarrow> ProfileImpl option" where
  "GetProfile mgr index =
     (if index < length (m_profileIndices mgr)
      then map_of (m_profiles mgr) (m_profileIndices mgr ! index)
      else None)"

text \<open>
  \<^verbatim>\<open>AddProfile\<close> and \<^verbatim>\<open>SetPrimaryProfile\<close>: a default-constructed result in a
  completed task; the manager is not touched.
\<close>

definition AddProfile :: "ProfileImpl \<Rightarrow> ProfileManagerImpl \<Rightarrow> ProfileTaskResult \<times> ProfileManagerImpl" where
  "AddProfile profile mgr = (TaskResultDefault, mgr)"

definition SetPrimaryProfile ::
  "ProfileImpl \<Rightarrow> ProfileManagerImpl \<Rightarrow> ProfileTaskResult \<times> ProfileManagerImpl" where
  "SetPrimaryProfile profile mgr = (TaskResultDefault, mgr)"

section \<open>Sign-in\<close>

text \<open>
  Modelled from the spec: \<^verbatim>\<open>TokenBag\<close> belongs to the terminal library. The bag is kept
  as the sequence of the \<^verbatim>\<open>AddToken(type, token)\<close> calls made on it, oldest first, from
  which any accumulator of token type and token value is determined.
\<close>

type_synonym TokenBag = "(string \<times> string) list"

definition AddToken :: "string \<Rightarrow> string \<Rightarrow> TokenBag \<Rightarrow> TokenBag" where
  "AddToken tokenType token bag = bag @ [(tokenType, token)]"

text \<open>
  A \<^verbatim>\<open>terminal::Result\<close> as the source reads it: \<^verbatim>\<open>HasSucceeded()\<close>, or an error code
  printed with \<^verbatim>\<open>%d\<close>. The remote backend is given by its answers to the two calls
  that the source makes.
\<close>

datatype Result = ResultSucceeded | ResultFailed int

record Terminal =
  ConnectRemote :: "string \<Rightarrow> Result"
  AuthenticateWithTokenBag :: "TokenBag \<Rightarrow> Result"

text \<open>The \<^verbatim>\<open>%d\<close> conversion of \<^verbatim>\<open>va\<close>.\<close>

fun decimal :: "nat \<Rightarrow> string" where
  "decimal n =
     (if n < 10 then [char_of (48 + n)]
      else decimal (n div 10) @ [char_of (48 + n mod 10)])"

declare decimal.simps [simp del]

definition format_d :: "int \<Rightarrow> string" where
  "format_d i = (if i < 0 then CHR ''-'' # decimal (nat (- i)) else decimal (nat i))"

text \<open>
  The calls that leave the manager during a sign-in, in the order in which they are made.
\<close>

datatype SignInCall =
    CallProcessIdentity string
  | CallConnectRemote string
  | CallAuthenticateWithTokenBag TokenBag
  | CallUpdateStoredProfiles json

text \<open>
  The variables shared by the closures of \<^verbatim>\<open>SignIn\<close>: the completion event of the
  returned task (\<open>None\<close> as long as nothing was set: the task is not complete), the token
  bag, the index, and the calls made so far.
\<close>

record SignInState =
  resultEvent :: "ProfileTaskResult option"
  tokenBag :: TokenBag
  idx :: nat
  calls :: "SignInCall list"

text \<open>What the closures capture by value.\<close>

record SignInEnv =
  env_manager :: ProfileManagerImpl
  env_terminal :: Terminal
  env_profile :: ProfileImpl
  env_parameters :: "(string \<times> string) list"

text \<open>The \<^verbatim>\<open>else\<close> branch of the continuation: connect, authenticate, save.\<close>

definition connectToTerminal :: "SignInEnv \<Rightarrow> SignInState \<Rightarrow> SignInState" where
  "connectToTerminal env st =
     (let st1 = st\<lparr>calls := calls st @ [CallConnectRemote ''layer1://localhost:3036'']\<rparr>
      in case ConnectRemote (env_terminal env) ''layer1://localhost:3036'' of
           ResultSucceeded \<Rightarrow>
             (let st2 = st1\<lparr>calls := calls st1 @ [CallAuthenticateWithTokenBag (tokenBag st1)]\<rparr>
              in case AuthenticateWithTokenBag (env_terminal env) (tokenBag st1) of
                   ResultSucceeded \<Rightarrow>
                     st2\<lparr>calls := calls st2 @
                            [CallUpdateStoredProfiles (UpdateStoredProfiles (env_manager env))],
                         resultEvent := Some (TaskResult True)\<rparr>
                 | ResultFailed code \<Rightarrow>
                     st2\<lparr>resultEvent := Some (TaskResultMsg False
                       (''Authenticating to Terminal failed - error code '' @ format_d code @ ''.''))\<rparr>)
         | ResultFailed code \<Rightarrow>
             st1\<lparr>resultEvent := Some (TaskResultMsg False
               (''Connecting to Terminal failed - error code '' @ format_d code @ ''.''))\<rparr>)"

text \<open>
  The continuation \<^verbatim>\<open>continueIdentifier->func\<close> and the callback \<^verbatim>\<open>identifierCB\<close>,
  which call each other. When no provider is registered for the key of the identifier at
  \<^verbatim>\<open>*idx\<close>, the source's \<^verbatim>\<open>if\<close> has no \<^verbatim>\<open>else\<close>: the continuation returns, and
  nothing is left that would run later.
\<close>

function continueIdentifier :: "SignInEnv \<Rightarrow> SignInState \<Rightarrow> SignInState"
  and identifierCB :: "SignInEnv \<Rightarrow> ProfileIdentityResult \<Rightarrow> SignInState \<Rightarrow> SignInState" where
  "continueIdentifier env st =
     (if idx st < length (m_identifiers (env_profile env)) then
        (let identifier = m_identifiers (env_profile env) ! idx st
         in case m_identityProviders (env_manager env) (fst identifier) of
              None \<Rightarrow> st
            | Some provider \<Rightarrow>
                identifierCB env
                  (ProcessIdentity provider (env_profile env) (env_parameters env))
                  (st\<lparr>calls := calls st @ [CallProcessIdentity (fst identifier)]\<rparr>))
      else connectToTerminal env st)"
| "identifierCB env result st =
     (case result of
        IdentitySucceeded tokenType token \<Rightarrow>
          continueIdentifier env
            (st\<lparr>tokenBag := AddToken tokenType token (tokenBag st), idx := idx st + 1\<rparr>)
      | IdentityFailed err \<Rightarrow>
          st\<lparr>resultEvent := Some (TaskResultMsg False err)\<rparr>)"
  by pat_completeness auto
termination
  by (relation "measure (\<lambda>x. case x of
        Inl (env, st) \<Rightarrow> 2 * (length (m_identifiers (env_profile env)) - idx st)
      | Inr (env, r, st) \<Rightarrow> 2 * (length (m_identifiers (env_profile env)) - idx st - 1) + 1)")
    auto

declare continueIdentifier.simps [simp del] identifierCB.simps [simp del]

text \<open>
  \<^verbatim>\<open>SignIn\<close>: start the chain with an empty bag at index 0. The value is the state in
  which the chain comes to rest; the task handed to the caller completes with
  \<open>resultEvent\<close>, and never completes when that is \<open>None\<close>.
\<close>

definition SignIn ::
  "ProfileManagerImpl \<Rightarrow> Terminal \<Rightarrow> ProfileImpl \<Rightarrow> (string \<times> string) list \<Rightarrow> SignInState" where
  "SignIn mgr terminal profile parameters =
     continueIdentifier
       \<lparr>env_manager = mgr, env_terminal = terminal, env_profile = profile,
        env_parameters = parameters\<rparr>
       \<lparr>resultEvent = None, tokenBag = [], idx = 0, calls = []\<rparr>"

section \<open>Concrete inputs\<close>

text \<open>
  The manager as its constructor leaves it: no providers, no profiles.
\<close>

definition ProfileManagerImpl_new :: ProfileManagerImpl where
  "ProfileManagerImpl_new =
     \<lparr>m_suggestionProviders = [], m_identityProviders = Map.empty,
      m_profiles = [], m_profileIndices = []\<rparr>"

text \<open>
  A stand-in for the absent \<^verbatim>\<open>std::hash<ProfileIdentifier>\<close>, used only where a theorem
  is evaluated at a concrete input: a polynomial hash of each string, the two combined.
\<close>

definition hash_string :: "string \<Rightarrow> 64 word" where
  "hash_string s = fold (\<lambda>c h. h * 31 + of_char c) s 7"

definition sampleHash :: "ProfileIdentifier \<Rightarrow> 64 word" where
  "sampleHash identifier = hash_string (fst identifier) XOR 5 * hash_string (snd identifier)"

text \<open>A candidate profile as a suggestion provider hands it over.\<close>

definition candidate :: "string \<Rightarrow> string \<Rightarrow> ProfileIdentifier list \<Rightarrow> ProfileImpl" where
  "candidate name tile ids =
     ProfileImpl_new\<lparr>m_name := name, m_tileURI := tile, m_identifiers := ids\<rparr>"

text \<open>
  The fingerprint as the spec words it: for each identifier the content hash times 3,
  all combined with XOR, masked to 32 bits.
\<close>

definition spec_fingerprint ::
  "(ProfileIdentifier \<Rightarrow> 'w::len word) \<Rightarrow> ProfileIdentifier list \<Rightarrow> 32 word" where
  "spec_fingerprint hash ids = ucast (foldr (\<lambda>i acc. 3 * hash i XOR acc) ids 0 AND mask 32)"

section \<open>Properties of the fingerprint\<close>

lemma scan_candidate_hashKey:
  "snd (scan_candidate hash ps ids acc) = foldr (\<lambda>i a. 3 * hash i XOR a) ids 0 XOR snd acc"
proof (induction ids arbitrary: acc)
  case Nil
  show ?case by simp
next
  case (Cons i ids)
  show ?case
    by (simp add: Cons.IH xor.assoc xor.left_commute xor.commute)
qed

lemma ucast_and_UINT32_MAX:
  "(ucast ((x :: 'w::len word) AND 0xFFFFFFFF) :: 32 word) = ucast (x AND mask 32)"
proof -
  have "(0xFFFFFFFF :: 'w word) = mask 32"
    by (simp add: mask_eq_exp_minus_1)
  then show ?thesis by simp
qed

lemma ucast_and_mask_32: "(ucast ((x :: 'w::len word) AND mask 32) :: 32 word) = ucast x"
  by (rule bit_word_eqI) (auto simp: bit_simps dest: bit_imp_le_length)

lemma Initialize_callback_fingerprint:
  "m_internalIdentifier (fst (Initialize_callback hash c mgr)) =
     spec_fingerprint hash (m_identifiers c)"
  by (simp add: Initialize_callback_def Let_def spec_fingerprint_def scan_candidate_hashKey
      ucast_and_UINT32_MAX)

lemma spec_fingerprint_mset:
  assumes "mset ids = mset ids'"
  shows "spec_fingerprint hash ids = spec_fingerprint hash ids'"
proof -
  let ?f = "\<lambda>i (a :: 'a word). 3 * hash i XOR a"
  have comm: "?f x \<circ> ?f y = ?f y \<circ> ?f x" for x y
    by (rule ext) (simp add: xor.left_commute)
  have "fold ?f ids = fold ?f ids'"
    by (rule fold_multiset_equiv) (use assms comm in auto)
  moreover have "foldr ?f xs = fold ?f xs" for xs
    by (rule foldr_fold) (use comm in auto)
  ultimately show ?thesis
    by (simp add: spec_fingerprint_def)
qed

text \<open>
  C6. The fingerprint that suggestion ingestion computes for a candidate does not depend
  on the order of the candidate's identifiers: two candidates whose identifier sequences
  are permutations of each other are given the same fingerprint, whatever the store
  they are matched against.
\<close>

theorem fingerprint_permutation_invariant:
  assumes "mset (m_identifiers c) = mset (m_identifiers c')"
  shows "m_internalIdentifier (fst (Initialize_callback hash c mgr)) =
         m_internalIdentifier (fst (Initialize_callback hash c' mgr))"
  using spec_fingerprint_mset [OF assms, of hash]
  by (simp add: Initialize_callback_fingerprint)

theorem fingerprint_permutation_invariant_witness:
  "mset (m_identifiers (candidate ''a'' ''t'' [(''steam'', ''1''), (''ros'', ''a'')])) =
   mset (m_identifiers (candidate ''b'' ''u'' [(''ros'', ''a''), (''steam'', ''1'')])) \<and>
   m_internalIdentifier (fst (Initialize_callback sampleHash
       (candidate ''a'' ''t'' [(''steam'', ''1''), (''ros'', ''a'')]) ProfileManagerImpl_new)) =
   m_internalIdentifier (fst (Initialize_callback sampleHash
       (candidate ''b'' ''u'' [(''ros'', ''a''), (''steam'', ''1'')]) ProfileManagerImpl_new))"
proof -
  have h: "mset (m_identifiers (candidate ''a'' ''t'' [(''steam'', ''1''), (''ros'', ''a'')])) =
           mset (m_identifiers (candidate ''b'' ''u'' [(''ros'', ''a''), (''steam'', ''1'')]))"
    by (simp add: candidate_def)
  from fingerprint_permutation_invariant [OF h, of sampleHash ProfileManagerImpl_new] h
  show ?thesis by simp
qed

end
